theory Spec2Isabelle
  imports Complex_Main
begin

section \<open>Values shared by the parser and the renderers\<close>

text \<open>
  A Python \<open>str\<close> is a sequence of Unicode code points, so a string is modelled as a
  list of code points (natural numbers); \<open>py\<close> embeds an ASCII literal.  A number is
  the real number it denotes; \<open>convert_3dbbox\<close> is given over exact real arithmetic.
\<close>

type_synonym pystr = "nat list"

definition py :: "string \<Rightarrow> pystr" where
  "py s = map of_char s"

datatype py_error =
  JSONDecodeError | IndexError | KeyError | TypeError | ValueError
  | ZeroDivisionError | OverflowError | RecursionError | IOError

text \<open>
  What \<open>json.loads\<close> produces: \<open>None\<close>, \<open>bool\<close>, \<open>int\<close>, \<open>float\<close>, \<open>str\<close>,
  \<open>list\<close> and \<open>dict\<close> (an association list whose keys are distinct).
\<close>

datatype json =
  JNull | JBool bool | JInt int | JFloat real | JStr pystr
  | JArray "json list" | JObject "(pystr \<times> json) list"

text \<open>
  Arithmetic on a decoded value: \<open>int\<close>, \<open>float\<close> and \<open>bool\<close> (a subclass of \<open>int\<close>)
  are numbers; arithmetic on anything else raises \<open>TypeError\<close>.
\<close>

fun num_of :: "json \<Rightarrow> py_error + real" where
  "num_of (JInt i) = Inr (real_of_int i)"
| "num_of (JFloat r) = Inr r"
| "num_of (JBool b) = Inr (if b then 1 else 0)"
| "num_of _ = Inl TypeError"

fun nums_of :: "json list \<Rightarrow> py_error + real list" where
  "nums_of [] = Inr []"
| "nums_of (v # vs) =
     (case num_of v of
        Inl e \<Rightarrow> Inl e
      | Inr r \<Rightarrow> (case nums_of vs of Inl e \<Rightarrow> Inl e | Inr rs \<Rightarrow> Inr (r # rs)))"

definition py_div :: "real \<Rightarrow> real \<Rightarrow> py_error + real" where
  "py_div a b = (if b = 0 then Inl ZeroDivisionError else Inr (a / b))"

text \<open>\<open>int(x)\<close> on a float truncates towards zero.\<close>

definition py_int :: "real \<Rightarrow> int" where
  "py_int r = (if 0 \<le> r then \<lfloor>r\<rfloor> else \<lceil>r\<rceil>)"

subsection \<open>Floating point\<close>

text \<open>
  Where a result depends on rounding, a Python float is the real number it denotes and
  each operation rounds its exact result to the nearest binary64 value, ties to even.
  \<open>binade\<close> scales a positive \<open>m\<close> into \<open>[2^52, 2^53)\<close>, in steps of 64 binary places and
  of one, keeping \<open>m * u\<close> unchanged and stopping at the exponent \<open>-1074\<close> of the
  subnormal numbers; \<open>fl\<close> then rounds \<open>m\<close> to an integer.  A magnitude of \<open>2^1024\<close> or
  more stands for an infinite result.
\<close>

definition round_half_even :: "real \<Rightarrow> int" where
  "round_half_even x =
     (let f = \<lfloor>x\<rfloor>; d = x - real_of_int f
      in if d < 1 / 2 then f else if d > 1 / 2 then f + 1 else if even f then f else f + 1)"

fun binade :: "nat \<Rightarrow> real \<Rightarrow> int \<Rightarrow> real \<Rightarrow> real \<times> real" where
  "binade fuel m e u =
     (if fuel = 0 then (m, u)
      else if 2 ^ 117 \<le> m then binade (fuel - 1) (m / 2 ^ 64) (e + 64) (u * 2 ^ 64)
      else if 2 ^ 53 \<le> m then binade (fuel - 1) (m / 2) (e + 1) (u * 2)
      else if m * 2 ^ 64 < 2 ^ 53 \<and> - 1074 \<le> e - 64 then
        binade (fuel - 1) (m * 2 ^ 64) (e - 64) (u / 2 ^ 64)
      else if m < 2 ^ 52 \<and> - 1074 < e then binade (fuel - 1) (m * 2) (e - 1) (u / 2)
      else (m, u))"

declare binade.simps [simp del]

definition fl :: "real \<Rightarrow> real" where
  "fl x =
     (if x = 0 then 0
      else (case binade 2200 \<bar>x\<bar> 0 1 of
              (m, u) \<Rightarrow> sgn x * real_of_int (round_half_even m) * u))"

definition float_limit :: real where
  "float_limit = 2 ^ 1024"

section \<open>Visualization3D.convert_3dbbox\<close>

record cam_params =
  fx :: real
  fy :: real
  cx :: real
  cy :: real

type_synonym vec3 = "real \<times> real \<times> real"

definition local_corners :: "real \<Rightarrow> real \<Rightarrow> real \<Rightarrow> vec3 list" where
  "local_corners hx hy hz =
     [( hx,  hy,  hz), ( hx,  hy, - hz), ( hx, - hy,  hz), ( hx, - hy, - hz),
      (- hx,  hy,  hz), (- hx,  hy, - hz), (- hx, - hy,  hz), (- hx, - hy, - hz)]"

text \<open>The body of the loop over the corners, up to the translation (lines 70 to 90).\<close>

definition transform_corner :: "vec3 \<Rightarrow> real \<Rightarrow> real \<Rightarrow> real \<Rightarrow> vec3 \<Rightarrow> vec3" where
  "transform_corner centre pitch yaw roll corner =
     (case centre of (x, y, z) \<Rightarrow>
      case corner of (x0, y0, z0) \<Rightarrow>
        let x1 = x0 * cos yaw + z0 * sin yaw;
            y1 = y0;
            z1 = - x0 * sin yaw + z0 * cos yaw;
            x2 = x1;
            y2 = y1 * cos pitch - z1 * sin pitch;
            z2 = y1 * sin pitch + z1 * cos pitch;
            x3 = x2 * cos roll - y2 * sin roll;
            y3 = x2 * sin roll + y2 * cos roll;
            z3 = z2
        in (x3 + x, y3 + y, z3 + z))"

text \<open>
  The loop itself: \<open>img_corners\<close> is the list being appended to; a division by zero
  would raise.
\<close>

fun corner_loop ::
  "cam_params \<Rightarrow> vec3 \<Rightarrow> real \<Rightarrow> real \<Rightarrow> real \<Rightarrow> vec3 list \<Rightarrow> (real \<times> real) list
     \<Rightarrow> py_error + (real \<times> real) list" where
  "corner_loop cam centre pitch yaw roll [] img_corners = Inr img_corners"
| "corner_loop cam centre pitch yaw roll (corner # rest) img_corners =
     (case transform_corner centre pitch yaw roll corner of (X, Y, Z) \<Rightarrow>
        if Z > 0 then
          (case py_div X Z of
             Inl e \<Rightarrow> Inl e
           | Inr qx \<Rightarrow>
               (case py_div Y Z of
                  Inl e \<Rightarrow> Inl e
                | Inr qy \<Rightarrow>
                    corner_loop cam centre pitch yaw roll rest
                      (img_corners @ [(fx cam * qx + cx cam, fy cam * qy + cy cam)])))
        else corner_loop cam centre pitch yaw roll rest img_corners)"

text \<open>
  \<open>point\<close> is the list handed over by the caller.  Unpacking it into nine names raises
  \<open>ValueError\<close> unless it has nine entries; every entry is then used in arithmetic.
\<close>

definition convert_3dbbox :: "json list \<Rightarrow> cam_params \<Rightarrow> py_error + (real \<times> real) list" where
  "convert_3dbbox point cam =
     (if length point \<noteq> 9 then Inl ValueError
      else
        (case nums_of point of
           Inl e \<Rightarrow> Inl e
         | Inr [x, y, z, x_size, y_size, z_size, pitch, yaw, roll] \<Rightarrow>
             corner_loop cam (x, y, z) pitch yaw roll
               (local_corners (x_size / 2) (y_size / 2) (z_size / 2)) []
         | Inr _ \<Rightarrow> Inl ValueError))"

subsection \<open>The rotation convention in the words of the specification\<close>

text \<open>A standard rotation by \<open>t\<close> within a coordinate plane.\<close>

definition rot2d :: "real \<Rightarrow> real \<times> real \<Rightarrow> real \<times> real" where
  "rot2d t p = (fst p * cos t - snd p * sin t, fst p * sin t + snd p * cos t)"

text \<open>Yaw turns about the vertical Y axis: it acts in the (z, x) plane and keeps y.\<close>

definition rot_yaw :: "real \<Rightarrow> vec3 \<Rightarrow> vec3" where
  "rot_yaw t v = (case v of (x, y, z) \<Rightarrow> case rot2d t (z, x) of (z', x') \<Rightarrow> (x', y, z'))"

text \<open>Pitch turns about the lateral X axis: it acts in the (y, z) plane and keeps x.\<close>

definition rot_pitch :: "real \<Rightarrow> vec3 \<Rightarrow> vec3" where
  "rot_pitch t v = (case v of (x, y, z) \<Rightarrow> case rot2d t (y, z) of (y', z') \<Rightarrow> (x, y', z'))"

text \<open>Roll turns about the depth Z axis: it acts in the (x, y) plane and keeps z.\<close>

definition rot_roll :: "real \<Rightarrow> vec3 \<Rightarrow> vec3" where
  "rot_roll t v = (case v of (x, y, z) \<Rightarrow> case rot2d t (x, y) of (x', y') \<Rightarrow> (x', y', z))"

definition translate :: "vec3 \<Rightarrow> vec3 \<Rightarrow> vec3" where
  "translate c v = (case c of (x, y, z) \<Rightarrow> case v of (a, b, d) \<Rightarrow> (a + x, b + y, d + z))"


definition depth :: "vec3 \<Rightarrow> real" where
  "depth v = (case v of (X, Y, Z) \<Rightarrow> Z)"

text \<open>The box and the camera of the depth boundary example.\<close>

definition box_unit :: "json list" where
  "box_unit = [JInt 0, JInt 0, JInt 0, JInt 2, JInt 2, JInt 2, JInt 0, JInt 0, JInt 0]"

definition box_flat :: "json list" where
  "box_flat = [JInt 0, JInt 0, JInt 0, JInt 2, JInt 2, JInt 0, JInt 0, JInt 0, JInt 0]"

definition cam_origin :: cam_params where
  "cam_origin = \<lparr>fx = 1000, fy = 1000, cx = 0, cy = 0\<rparr>"

section \<open>Visualization3D.draw_3dbboxes\<close>

text \<open>What the renderers print.\<close>

datatype log_msg =
  LogCannotRead | LogDraw3DError py_error
  | LogUnparsable | LogProcessed "(json \<times> json \<times> json) list" | LogInvalidBbox json
  | LogDraw2DError py_error
  | LogParse3DFail py_error | LogParse2DFail py_error

text \<open>
  The renderer works on floating point values whose rounding the language does not fix
  (\<open>np.deg2rad\<close>, \<open>math.sin\<close> and \<open>math.cos\<close> are library functions): the results of
  \<open>np.deg2rad\<close>, of \<open>convert_3dbbox\<close> as the interpreter evaluates it, of \<open>int(..)\<close> on a
  projected coordinate (which raises on an infinite one), of \<open>y - 10\<close>, and whether
  \<open>cv2.line\<close> accepts the two points or raises.  They are taken as they come, in a
  record, and what is proved of the renderer holds for all of them; \<open>'p\<close> is the type of
  a projected coordinate.
\<close>

record 'p render_env =
  env_deg2rad :: "json \<Rightarrow> py_error + real"
  env_convert_3dbbox :: "json list \<Rightarrow> cam_params \<Rightarrow> py_error + ('p \<times> 'p) list"
  env_int :: "'p \<Rightarrow> py_error + int"
  env_minus_ten :: "'p \<Rightarrow> 'p"
  env_line :: "int \<times> int \<Rightarrow> int \<times> int \<Rightarrow> bool"

text \<open>
  The figure of the 3D renderer: the segments drawn on the copy of the image by
  \<open>cv2.line\<close> and the labels placed over it.  A colour is a list of three numbers.
\<close>

type_synonym colour = "nat list"

record 'p fig3d =
  segments :: "((int \<times> int) \<times> (int \<times> int) \<times> colour) list"
  label_positions :: "('p \<times> 'p \<times> json \<times> colour) list"

definition edges :: "(nat \<times> nat) list" where
  "edges = [(0,1), (2,3), (4,5), (6,7),
            (0,2), (1,3), (4,6), (5,7),
            (0,4), (1,5), (2,6), (3,7)]"

text \<open>Lines 130 to 135: the geometry and the label of a record.\<close>

definition record_3d :: "json \<Rightarrow> json \<times> json" where
  "record_3d bbox_data =
     (case bbox_data of
        JObject kv \<Rightarrow>
          (case map_of kv (py ''bbox_3d'') of
             Some v \<Rightarrow>
               (v, (case map_of kv (py ''label'') of Some l \<Rightarrow> l | None \<Rightarrow> JStr (py ''object'')))
           | None \<Rightarrow> (bbox_data, JStr (py ''object'')))
      | _ \<Rightarrow> (bbox_data, JStr (py ''object'')))"

text \<open>\<open>list(v)\<close>: the entries of a list, the characters of a string, the keys of a dict.\<close>

fun py_list :: "json \<Rightarrow> py_error + json list" where
  "py_list (JArray xs) = Inr xs"
| "py_list (JStr s) = Inr (map (\<lambda>c. JStr [c]) s)"
| "py_list (JObject kv) = Inr (map (\<lambda>p. JStr (fst p)) kv)"
| "py_list _ = Inl TypeError"

text \<open>\<open>np.deg2rad(bbox_3d[i])\<close>: the index may be out of range.\<close>

definition deg2rad_at :: "'p render_env \<Rightarrow> json list \<Rightarrow> nat \<Rightarrow> py_error + real" where
  "deg2rad_at env xs i = (if i < length xs then env_deg2rad env (xs ! i) else Inl IndexError)"

text \<open>
  The body of the \<open>try\<close> in the loop over the edges, up to \<open>cv2.line\<close> (lines 161 to
  163): the two points drawn, or \<open>None\<close> when an index, an \<open>int(..)\<close> or \<open>cv2.line\<close>
  raises.
\<close>

definition draw_edge ::
  "'p render_env \<Rightarrow> ('p \<times> 'p) list \<Rightarrow> nat \<Rightarrow> nat \<Rightarrow> ((int \<times> int) \<times> (int \<times> int)) option" where
  "draw_edge env bbox_2d start stop =
     (if start < length bbox_2d \<and> stop < length bbox_2d then
        (case env_int env (fst (bbox_2d ! start)) of Inl e \<Rightarrow> None | Inr x1 \<Rightarrow>
         case env_int env (snd (bbox_2d ! start)) of Inl e \<Rightarrow> None | Inr y1 \<Rightarrow>
         case env_int env (fst (bbox_2d ! stop)) of Inl e \<Rightarrow> None | Inr x2 \<Rightarrow>
         case env_int env (snd (bbox_2d ! stop)) of Inl e \<Rightarrow> None | Inr y2 \<Rightarrow>
           if env_line env (x1, y1) (x2, y2) then Some ((x1, y1), (x2, y2)) else None)
      else None)"

text \<open>
  The loop over the edges.  Whatever is raised while an edge is drawn is swallowed by
  the bare \<open>except\<close> and the loop goes on with the next edge.
\<close>

fun edge_loop ::
  "'p render_env \<Rightarrow> ('p \<times> 'p) list \<Rightarrow> json \<Rightarrow> colour \<Rightarrow> (nat \<times> nat) list \<Rightarrow> 'p fig3d
     \<Rightarrow> 'p fig3d" where
  "edge_loop env bbox_2d label box_color [] fig = fig"
| "edge_loop env bbox_2d label box_color ((start, stop) # rest) fig =
     (case draw_edge env bbox_2d start stop of
        None \<Rightarrow> edge_loop env bbox_2d label box_color rest fig
      | Some (pt1, pt2) \<Rightarrow>
          (let fig1 = fig\<lparr>segments := segments fig @ [(pt1, pt2, box_color)]\<rparr>;
               fig2 = (if start = 0 then
                         fig1\<lparr>label_positions := label_positions fig1 @
                            [(fst (bbox_2d ! 0), env_minus_ten env (snd (bbox_2d ! 0)), label,
                              box_color)]\<rparr>
                       else fig1)
           in edge_loop env bbox_2d label box_color rest fig2))"

text \<open>
  Lines 130 to 151: the label of a record and its projection.  The call
  \<open>self.convert_3dbbox(bbox_3d, cam_params)\<close> is \<open>env_convert_3dbbox\<close>, the function
  \<open>convert_3dbbox\<close> as the interpreter evaluates it.
\<close>

definition project_record ::
  "'p render_env \<Rightarrow> cam_params \<Rightarrow> json \<Rightarrow> py_error + json \<times> ('p \<times> 'p) list" where
  "project_record env cam bbox_data =
     (case record_3d bbox_data of (geometry, label) \<Rightarrow>
      case py_list geometry of
        Inl e \<Rightarrow> Inl e
      | Inr bbox_3d \<Rightarrow>
      (case deg2rad_at env bbox_3d 6 of
        Inl e \<Rightarrow> Inl e
      | Inr pitch_rad \<Rightarrow>
      (case deg2rad_at env bbox_3d 7 of
        Inl e \<Rightarrow> Inl e
      | Inr yaw_rad \<Rightarrow>
      (case deg2rad_at env bbox_3d 8 of
        Inl e \<Rightarrow> Inl e
      | Inr roll_rad \<Rightarrow>
      (case env_convert_3dbbox env
              (bbox_3d[6 := JFloat pitch_rad, 7 := JFloat yaw_rad, 8 := JFloat roll_rad]) cam of
        Inl e \<Rightarrow> Inl e
      | Inr bbox_2d \<Rightarrow> Inr (label, bbox_2d))))))"

text \<open>
  One turn of the loop over the records (lines 128 to 169).  The state is the number of
  random numbers drawn so far and the figure; \<open>rnd\<close> is the sequence of numbers that
  \<open>random.randint\<close> returns.
\<close>

definition draw_box ::
  "'p render_env \<Rightarrow> (nat \<Rightarrow> nat) \<Rightarrow> cam_params \<Rightarrow> json \<Rightarrow> nat \<times> 'p fig3d
     \<Rightarrow> py_error + nat \<times> 'p fig3d" where
  "draw_box env rnd cam bbox_data st =
     (case project_record env cam bbox_data of
        Inl e \<Rightarrow> Inl e
      | Inr (label, bbox_2d) \<Rightarrow>
          if length bbox_2d \<ge> 8 then
            (case st of (k, fig) \<Rightarrow>
               Inr (k + 3,
                    edge_loop env bbox_2d label [rnd k, rnd (k + 1), rnd (k + 2)] edges fig))
          else Inr st)"

fun box_loop ::
  "'p render_env \<Rightarrow> (nat \<Rightarrow> nat) \<Rightarrow> cam_params \<Rightarrow> json list \<Rightarrow> nat \<times> 'p fig3d
     \<Rightarrow> py_error + nat \<times> 'p fig3d" where
  "box_loop env rnd cam [] st = Inr st"
| "box_loop env rnd cam (bbox_data # rest) st =
     (case draw_box env rnd cam bbox_data st of
        Inl e \<Rightarrow> Inl e
      | Inr st' \<Rightarrow> box_loop env rnd cam rest st')"

text \<open>
  The image is \<open>None\<close> when it cannot be read, and its width and height otherwise.  The
  result is what is printed and the figure, \<open>None\<close> for no figure.
\<close>

definition draw_3dbboxes ::
  "'p render_env \<Rightarrow> (nat \<Rightarrow> nat) \<Rightarrow> (nat \<times> nat) option \<Rightarrow> cam_params \<Rightarrow> json list
     \<Rightarrow> log_msg list \<times> 'p fig3d option" where
  "draw_3dbboxes env rnd img cam bbox_3d_list =
     (case img of
        None \<Rightarrow> ([LogCannotRead], None)
      | Some dims \<Rightarrow>
          (case box_loop env rnd cam bbox_3d_list (0, \<lparr>segments = [], label_positions = []\<rparr>) of
             Inl e \<Rightarrow> ([LogDraw3DError e], None)
           | Inr st \<Rightarrow> ([], Some (snd st))))"

text \<open>
  For the examples: a sequence of random numbers, and the operations over exact reals,
  with \<open>convert_3dbbox\<close> as defined above.  The examples use boxes without rotation
  whose corners project to integers, on which floating point computes the same.
\<close>

definition rnd_zero :: "nat \<Rightarrow> nat" where
  "rnd_zero k = 0"

definition env_exact :: "real render_env" where
  "env_exact =
     \<lparr>env_deg2rad = (\<lambda>v. case num_of v of Inl e \<Rightarrow> Inl e | Inr d \<Rightarrow> Inr (d * pi / 180)),
      env_convert_3dbbox = convert_3dbbox,
      env_int = (\<lambda>p. Inr (py_int p)),
      env_minus_ten = (\<lambda>y. y - 10),
      env_line = (\<lambda>pt1 pt2. True)\<rparr>"

definition segment_ends :: "'p fig3d \<Rightarrow> ((int \<times> int) \<times> (int \<times> int)) list" where
  "segment_ends fig = map (\<lambda>s. (fst s, fst (snd s))) (segments fig)"

section \<open>Visualization2D.draw_bboxes_2d\<close>

text \<open>Truth value of a decoded value, as \<open>if v:\<close> tests it.\<close>

fun truthy :: "json \<Rightarrow> bool" where
  "truthy JNull = False"
| "truthy (JBool b) = b"
| "truthy (JInt i) = (i \<noteq> 0)"
| "truthy (JFloat r) = (r \<noteq> 0)"
| "truthy (JStr s) = (s \<noteq> [])"
| "truthy (JArray xs) = (xs \<noteq> [])"
| "truthy (JObject kv) = (kv \<noteq> [])"

fun py_len :: "json \<Rightarrow> py_error + nat" where
  "py_len (JStr s) = Inr (length s)"
| "py_len (JArray xs) = Inr (length xs)"
| "py_len (JObject kv) = Inr (length kv)"
| "py_len _ = Inl TypeError"

text \<open>
  \<open>v[i]\<close> for an integer \<open>i \<ge> 0\<close>.  The keys of a decoded dict are strings, so an
  integer is never among them.
\<close>

fun getitem :: "json \<Rightarrow> nat \<Rightarrow> py_error + json" where
  "getitem (JArray xs) i = (if i < length xs then Inr (xs ! i) else Inl IndexError)"
| "getitem (JStr s) i = (if i < length s then Inr (JStr [s ! i]) else Inl IndexError)"
| "getitem (JObject kv) i = Inl KeyError"
| "getitem _ i = Inl TypeError"

text \<open>An entry of \<open>processed_bboxes\<close>.\<close>

record processed_bbox =
  bbox :: json
  label :: json
  score :: json

definition dict_get :: "(pystr \<times> json) list \<Rightarrow> pystr \<Rightarrow> json \<Rightarrow> json" where
  "dict_get kv k dflt = (case map_of kv k of Some v \<Rightarrow> v | None \<Rightarrow> dflt)"

text \<open>Lines 70 to 92: what one item of the list adds to \<open>processed_bboxes\<close>.\<close>

definition process_item :: "json \<Rightarrow> processed_bbox list" where
  "process_item item =
     (case item of
        JObject kv \<Rightarrow>
          (let bbox_key =
                 (if map_of kv (py ''bbox_2d'') \<noteq> None then Some (py ''bbox_2d'')
                  else if map_of kv (py ''bbox'') \<noteq> None then Some (py ''bbox'')
                  else if map_of kv (py ''bounding_box'') \<noteq> None then Some (py ''bounding_box'')
                  else None)
           in (case bbox_key of
                 None \<Rightarrow> []
               | Some k \<Rightarrow>
                   if truthy (dict_get kv k JNull) then
                     [\<lparr>bbox = dict_get kv k JNull,
                       label = dict_get kv (py ''label'') (JStr (py ''unknown'')),
                       score = dict_get kv (py ''score'') (JFloat 1)\<rparr>]
                   else []))
      | JArray xs \<Rightarrow>
          if length xs \<ge> 4 then [\<lparr>bbox = item, label = JStr (py ''object''), score = JFloat 1\<rparr>]
          else []
      | _ \<Rightarrow> [])"

text \<open>
  The figure of the 2D renderer: the rectangles added to the axes and the texts.  A
  colour is its index in the palette of 24 colours.
\<close>

datatype label_text = Label json | LabelScore json real

record rect2d =
  rect_x :: int
  rect_y :: int
  rect_width :: int
  rect_height :: int
  edgecolor :: nat

record text2d =
  text_x :: int
  text_y :: int
  text_s :: label_text
  facecolor :: nat

record draw_state =
  patches :: "rect2d list"
  texts :: "text2d list"
  printed :: "log_msg list"

datatype figure2d = Figure "rect2d list" "text2d list" | ErrorFigure py_error

text \<open>\<open>v > 1\<close>, which raises \<open>TypeError\<close> unless \<open>v\<close> is a number.\<close>

definition gt_one :: "json \<Rightarrow> py_error + bool" where
  "gt_one v = (case num_of v of Inl e \<Rightarrow> Inl e | Inr r \<Rightarrow> Inr (r > 1))"

text \<open>
  \<open>int(v / 1000 * extent)\<close> in floating point.  The quotient of an integer that is too
  large for a float raises \<open>OverflowError\<close>, as does the conversion of such an extent,
  and \<open>int(..)\<close> raises it on an infinite product.
\<close>

definition scale_1000 :: "json \<Rightarrow> nat \<Rightarrow> py_error + int" where
  "scale_1000 v extent =
     (case num_of v of
        Inl e \<Rightarrow> Inl e
      | Inr r \<Rightarrow>
          (let q = fl (r / 1000) in
           if float_limit \<le> \<bar>q\<bar> then Inl OverflowError
           else if float_limit \<le> fl (real extent) then Inl OverflowError
           else
             (let p = fl (q * fl (real extent)) in
              if float_limit \<le> \<bar>p\<bar> then Inl OverflowError else Inr (py_int p))))"

text \<open>
  Lines 104 to 112.  The numbers \<open>x1, y1, x2, y2\<close> assigned in either branch are never
  read; computing them raises nothing that the comparisons before them or the
  divisions after them do not raise on the same entries.  The result is \<open>False\<close> for a
  geometry to be skipped.
\<close>

definition check_bbox :: "json \<Rightarrow> py_error + bool" where
  "check_bbox b =
     (case py_len b of
        Inl e \<Rightarrow> Inl e
      | Inr n \<Rightarrow>
          if n = 4 then
            (case getitem b 2 of
               Inl e \<Rightarrow> Inl e
             | Inr b2 \<Rightarrow>
                 (case gt_one b2 of
                    Inl e \<Rightarrow> Inl e
                  | Inr g2 \<Rightarrow>
                      if g2 then
                        (case getitem b 3 of
                           Inl e \<Rightarrow> Inl e
                         | Inr b3 \<Rightarrow>
                             (case gt_one b3 of Inl e \<Rightarrow> Inl e | Inr g3 \<Rightarrow> Inr True))
                      else Inr True))
          else Inr False)"

text \<open>\<open>item["bbox"][i]\<close> scaled (lines 114 to 117).\<close>

definition scaled_at :: "json \<Rightarrow> nat \<Rightarrow> nat \<Rightarrow> py_error + int" where
  "scaled_at b i extent =
     (case getitem b i of Inl e \<Rightarrow> Inl e | Inr v \<Rightarrow> scale_1000 v extent)"

text \<open>One turn of the drawing loop (lines 97 to 138) for the item of index \<open>i\<close>.\<close>

definition draw_item ::
  "nat \<Rightarrow> nat \<Rightarrow> nat \<Rightarrow> processed_bbox \<Rightarrow> draw_state \<Rightarrow> py_error + draw_state" where
  "draw_item raw_width raw_height i item st =
     (case check_bbox (bbox item) of
        Inl e \<Rightarrow> Inl e
      | Inr False \<Rightarrow> Inr (st\<lparr>printed := printed st @ [LogInvalidBbox (bbox item)]\<rparr>)
      | Inr True \<Rightarrow>
      (case scaled_at (bbox item) 1 raw_height of
        Inl e \<Rightarrow> Inl e
      | Inr abs_y1 \<Rightarrow>
      (case scaled_at (bbox item) 0 raw_width of
        Inl e \<Rightarrow> Inl e
      | Inr abs_x1 \<Rightarrow>
      (case scaled_at (bbox item) 3 raw_height of
        Inl e \<Rightarrow> Inl e
      | Inr abs_y2 \<Rightarrow>
      (case scaled_at (bbox item) 2 raw_width of
        Inl e \<Rightarrow> Inl e
      | Inr abs_x2 \<Rightarrow>
          (let (abs_x1', abs_x2') = (if abs_x1 > abs_x2 then (abs_x2, abs_x1) else (abs_x1, abs_x2));
               (abs_y1', abs_y2') = (if abs_y1 > abs_y2 then (abs_y2, abs_y1) else (abs_y1, abs_y2));
               width = abs_x2' - abs_x1';
               height = abs_y2' - abs_y1';
               color = i mod 24;
               rect = \<lparr>rect_x = abs_x1', rect_y = abs_y1', rect_width = width,
                        rect_height = height, edgecolor = color\<rparr>
           in (case num_of (score item) of
                 Inl e \<Rightarrow> Inl e
               | Inr s \<Rightarrow>
                   Inr (st\<lparr>patches := patches st @ [rect],
                           texts := texts st @
                             [\<lparr>text_x = abs_x1' + 8, text_y = abs_y1' + 6,
                               text_s = (if s < 1 then LabelScore (label item) s
                                         else Label (label item)),
                               facecolor = color\<rparr>]\<rparr>))))))))"

fun draw_loop ::
  "nat \<Rightarrow> nat \<Rightarrow> nat \<Rightarrow> processed_bbox list \<Rightarrow> draw_state \<Rightarrow> py_error + draw_state" where
  "draw_loop raw_width raw_height i [] st = Inr st"
| "draw_loop raw_width raw_height i (item # rest) st =
     (case draw_item raw_width raw_height i item st of
        Inl e \<Rightarrow> Inl e
      | Inr st' \<Rightarrow> draw_loop raw_width raw_height (i + 1) rest st')"

text \<open>
  The whole renderer, called without \<open>output_path\<close>.  \<open>loads\<close> is \<open>json.loads\<close>; the
  image is \<open>None\<close> when it cannot be opened and its width and height otherwise.
\<close>

definition draw_bboxes_2d ::
  "(pystr \<Rightarrow> py_error + json) \<Rightarrow> (nat \<times> nat) option \<Rightarrow> json \<Rightarrow> log_msg list \<times> figure2d" where
  "draw_bboxes_2d loads img bbox_data =
     (case img of
        None \<Rightarrow> ([LogDraw2DError IOError], ErrorFigure IOError)
      | Some (raw_width, raw_height) \<Rightarrow>
          (let decoded = (case bbox_data of JStr s \<Rightarrow> loads s | _ \<Rightarrow> Inr bbox_data)
           in (case decoded of
                 Inl JSONDecodeError \<Rightarrow> ([LogUnparsable], Figure [] [])
               | Inl e \<Rightarrow> ([LogDraw2DError e], ErrorFigure e)
               | Inr data \<Rightarrow>
                   (let processed_bboxes =
                          (case data of JArray items \<Rightarrow> concat (map process_item items) | _ \<Rightarrow> []);
                        st0 = \<lparr>patches = [], texts = [],
                               printed = [LogProcessed
                                 (map (\<lambda>p. (bbox p, label p, score p)) processed_bboxes)]\<rparr>
                    in (case draw_loop raw_width raw_height 0 processed_bboxes st0 of
                          Inl e \<Rightarrow> (printed st0 @ [LogDraw2DError e], ErrorFigure e)
                        | Inr st \<Rightarrow> (printed st, Figure (patches st) (texts st)))))))"

text \<open>
  The pixel of a number on an axis of the given extent when nothing overflows, and the
  condition that nothing does.
\<close>

definition pixel_1000 :: "real \<Rightarrow> nat \<Rightarrow> int" where
  "pixel_1000 r extent = py_int (fl (fl (r / 1000) * fl (real extent)))"

definition in_float_range :: "real \<Rightarrow> nat \<Rightarrow> bool" where
  "in_float_range r extent \<longleftrightarrow>
     \<bar>fl (r / 1000)\<bar> < float_limit \<and> fl (real extent) < float_limit
     \<and> \<bar>fl (fl (r / 1000) * fl (real extent))\<bar> < float_limit"

definition rect_corners :: "rect2d \<Rightarrow> (int \<times> int) \<times> (int \<times> int)" where
  "rect_corners r = ((rect_x r, rect_y r), (rect_x r + rect_width r, rect_y r + rect_height r))"

section \<open>Python string operations used by the parser\<close>

text \<open>The characters for which \<open>str.isspace\<close> holds; \<open>strip()\<close> removes them at both ends.\<close>

definition is_space :: "nat \<Rightarrow> bool" where
  "is_space c \<longleftrightarrow>
     (9 \<le> c \<and> c \<le> 13) \<or> (28 \<le> c \<and> c \<le> 32) \<or> c = 133 \<or> c = 160 \<or> c = 5760
     \<or> (8192 \<le> c \<and> c \<le> 8202) \<or> c = 8232 \<or> c = 8233 \<or> c = 8239 \<or> c = 8287 \<or> c = 12288"

definition strip :: "pystr \<Rightarrow> pystr" where
  "strip s = rev (dropWhile is_space (rev (dropWhile is_space s)))"

text \<open>The line boundaries of \<open>str.splitlines\<close>; CR LF counts as one.\<close>

definition is_linebreak :: "nat \<Rightarrow> bool" where
  "is_linebreak c \<longleftrightarrow>
     (10 \<le> c \<and> c \<le> 13) \<or> (28 \<le> c \<and> c \<le> 30) \<or> c = 133 \<or> c = 8232 \<or> c = 8233"

fun splitlines_from :: "pystr \<Rightarrow> pystr \<Rightarrow> pystr list" where
  "splitlines_from cur [] = (if cur = [] then [] else [cur])"
| "splitlines_from cur (c # cs) =
     (if is_linebreak c then
        (case cs of
           d # ds \<Rightarrow>
             if c = 13 \<and> d = 10 then cur # splitlines_from [] ds
             else cur # splitlines_from [] cs
         | [] \<Rightarrow> cur # splitlines_from [] cs)
      else splitlines_from (cur @ [c]) cs)"

definition splitlines :: "pystr \<Rightarrow> pystr list" where
  "splitlines s = splitlines_from [] s"

definition startswith :: "pystr \<Rightarrow> pystr \<Rightarrow> bool" where
  "startswith s p \<longleftrightarrow> take (length p) s = p"

definition endswith :: "pystr \<Rightarrow> pystr \<Rightarrow> bool" where
  "endswith s p \<longleftrightarrow> length p \<le> length s \<and> drop (length s - length p) s = p"

text \<open>\<open>s.find(sub)\<close>: the least index at which \<open>sub\<close> occurs, if any.\<close>

fun find_sub :: "pystr \<Rightarrow> pystr \<Rightarrow> nat option" where
  "find_sub sub [] = (if sub = [] then Some 0 else None)"
| "find_sub sub (c # cs) =
     (if startswith (c # cs) sub then Some 0 else map_option Suc (find_sub sub cs))"

definition py_find :: "pystr \<Rightarrow> pystr \<Rightarrow> int" where
  "py_find s sub = (case find_sub sub s of None \<Rightarrow> - 1 | Some k \<Rightarrow> int k)"

text \<open>\<open>s.rfind(sub)\<close>: the greatest index at which \<open>sub\<close> occurs, if any.\<close>

definition py_rfind :: "pystr \<Rightarrow> pystr \<Rightarrow> int" where
  "py_rfind s sub =
     (case find_sub (rev sub) (rev s) of
        None \<Rightarrow> - 1
      | Some k \<Rightarrow> int (length s - k - length sub))"

definition contains :: "pystr \<Rightarrow> pystr \<Rightarrow> bool" where
  "contains sub s \<longleftrightarrow> find_sub sub s \<noteq> None"

lemma find_sub_le: "find_sub sub s = Some k \<Longrightarrow> k + length sub \<le> length s"
proof (induction s arbitrary: k)
  case Nil
  then show ?case by (simp split: if_splits)
next
  case (Cons c cs)
  show ?case
  proof (cases "startswith (c # cs) sub")
    case True
    then have "length (take (length sub) (c # cs)) = length sub"
      unfolding startswith_def by simp
    then have "length sub \<le> length (c # cs)"
      by (simp add: min_def split: if_splits)
    with True Cons.prems show ?thesis by simp
  next
    case False
    with Cons show ?thesis by auto
  qed
qed

text \<open>\<open>s.split(sep)\<close> for a separator that is not empty.\<close>

function split_sep :: "pystr \<Rightarrow> pystr \<Rightarrow> pystr list" where
  "split_sep sep s =
     (if sep = [] then [s]
      else
        (case find_sub sep s of
           None \<Rightarrow> [s]
         | Some k \<Rightarrow> take k s # split_sep sep (drop (k + length sep) s)))"
  by pat_completeness auto
termination
proof (relation "measure (\<lambda>(sep, s). length s)")
  show "wf (measure (\<lambda>(sep, s). length s))" by simp
next
  fix sep s :: pystr and k
  assume "sep \<noteq> []" and f: "find_sub sep s = Some k"
  have "k + length sep \<le> length s" by (rule find_sub_le [OF f])
  then have "length (drop (k + length sep) s) < length s"
    using \<open>sep \<noteq> []\<close> by (cases sep) auto
  then show "((sep, drop (k + length sep) s), (sep, s)) \<in> measure (\<lambda>(sep, s). length s)"
    by simp
qed

text \<open>\<open>s.replace(old, new)\<close> for \<open>old\<close> that is not empty.\<close>

function replace_sub :: "pystr \<Rightarrow> pystr \<Rightarrow> pystr \<Rightarrow> pystr" where
  "replace_sub old new s =
     (if old = [] then s
      else
        (case find_sub old s of
           None \<Rightarrow> s
         | Some k \<Rightarrow> take k s @ new @ replace_sub old new (drop (k + length old) s)))"
  by pat_completeness auto
termination
proof (relation "measure (\<lambda>(old, new, s). length s)")
  show "wf (measure (\<lambda>(old, new, s). length s))" by simp
next
  fix old new s :: pystr and k
  assume "old \<noteq> []" and f: "find_sub old s = Some k"
  have "k + length old \<le> length s" by (rule find_sub_le [OF f])
  then have "length (drop (k + length old) s) < length s"
    using \<open>old \<noteq> []\<close> by (cases old) auto
  then show "((old, new, drop (k + length old) s), (old, new, s))
      \<in> measure (\<lambda>(old, new, s). length s)"
    by simp
qed

text \<open>\<open>"\n".join(lines)\<close>.\<close>

fun join_nl :: "pystr list \<Rightarrow> pystr" where
  "join_nl [] = []"
| "join_nl [l] = l"
| "join_nl (l # ls) = l @ [10] @ join_nl ls"

text \<open>\<open>xs[i]\<close> for an index \<open>i \<ge> 0\<close>.\<close>

definition nth_err :: "'a list \<Rightarrow> nat \<Rightarrow> py_error + 'a" where
  "nth_err xs i = (if i < length xs then Inr (xs ! i) else Inl IndexError)"

text \<open>\<open>s[i:j]\<close> for \<open>0 \<le> i\<close> and \<open>0 \<le> j\<close>.\<close>

definition slice :: "pystr \<Rightarrow> int \<Rightarrow> int \<Rightarrow> pystr" where
  "slice s i j = drop (nat i) (take (nat j) s)"

section \<open>APIClient.parse_json_response\<close>

definition fence :: pystr where
  "fence = [96, 96, 96]"

definition json_word :: pystr where
  "json_word = py ''json''"

text \<open>
  The loop over the lines (lines 123 to 136); \<open>None\<close> when it ends without returning.
  \<open>rest\<close> is \<open>lines[i+1:]\<close>.
\<close>

fun scan_lines :: "pystr list \<Rightarrow> (py_error + pystr) option" where
  "scan_lines [] = None"
| "scan_lines (line # rest) =
     (if strip line = fence @ json_word then
        Some (case nth_err (split_sep fence (join_nl rest)) 0 of
                Inl e \<Rightarrow> Inl e
              | Inr json_output \<Rightarrow> Inr (strip json_output))
      else if startswith (strip line) fence \<and> contains json_word (strip line) then
        Some (case nth_err (split_sep fence line) 1 of
                Inl e \<Rightarrow> Inl e
              | Inr part \<Rightarrow>
                  (let json_part = strip (replace_sub json_word [] part);
                       remaining = join_nl rest
                   in (case nth_err (split_sep fence (json_part @ [10] @ remaining)) 0 of
                         Inl e \<Rightarrow> Inl e
                       | Inr json_output \<Rightarrow> Inr (strip json_output))))
      else scan_lines rest)"

definition parse_json_response :: "pystr \<Rightarrow> py_error + pystr" where
  "parse_json_response text =
     (if text = [] then Inr []
      else
        (case scan_lines (splitlines text) of
           Some r \<Rightarrow> r
         | None \<Rightarrow>
             (let text = strip text in
              if startswith text (py ''['') \<and> endswith text (py '']'') then Inr text
              else if startswith text (py ''{'') \<and> endswith text (py ''}'') then Inr text
              else
                (let start_idx = py_find text (py ''['');
                     end_idx = py_rfind text (py '']'')
                 in if start_idx \<noteq> - 1 \<and> end_idx \<noteq> - 1 \<and> end_idx > start_idx
                    then Inr (slice text start_idx (end_idx + 1))
                    else
                      (let start_idx = py_find text (py ''{'');
                           end_idx = py_rfind text (py ''}'')
                       in if start_idx \<noteq> - 1 \<and> end_idx \<noteq> - 1 \<and> end_idx > start_idx
                          then Inr (slice text start_idx (end_idx + 1))
                          else Inr text)))))"

section \<open>APIClient.parse_bbox_3d_from_text and parse_bbox_2d_from_text\<close>

text \<open>
  \<open>loads\<close> is \<open>json.loads\<close>.  An exception of a class that the \<open>except\<close> clause does not
  name leaves the function.
\<close>

definition parse_bbox_3d_from_text ::
  "(pystr \<Rightarrow> py_error + json) \<Rightarrow> pystr \<Rightarrow> log_msg list \<times> (py_error + json list)" where
  "parse_bbox_3d_from_text loads text =
     (let body =
            (case parse_json_response text of
               Inl e \<Rightarrow> Inl e
             | Inr json_str \<Rightarrow>
                 if json_str = [] then Inr []
                 else
                   (case loads json_str of
                      Inl e \<Rightarrow> Inl e
                    | Inr bbox_data \<Rightarrow>
                        (case bbox_data of
                           JArray xs \<Rightarrow> Inr xs
                         | JObject kv \<Rightarrow> Inr [bbox_data]
                         | _ \<Rightarrow> Inr [])))
      in (case body of
            Inr r \<Rightarrow> ([], Inr r)
          | Inl e \<Rightarrow>
              if e = JSONDecodeError \<or> e = IndexError \<or> e = KeyError
              then ([LogParse3DFail e], Inr [])
              else ([], Inl e)))"

definition parse_bbox_2d_from_text ::
  "(pystr \<Rightarrow> py_error + json) \<Rightarrow> pystr \<Rightarrow> log_msg list \<times> (py_error + json list)" where
  "parse_bbox_2d_from_text loads text =
     (let body =
            (case parse_json_response text of
               Inl e \<Rightarrow> Inl e
             | Inr json_str \<Rightarrow>
                 if json_str = [] then Inr []
                 else
                   (case loads json_str of
                      Inl e \<Rightarrow> Inl e
                    | Inr bbox_data \<Rightarrow>
                        (case bbox_data of
                           JArray xs \<Rightarrow> Inr xs
                         | JObject kv \<Rightarrow> Inr [bbox_data]
                         | _ \<Rightarrow> Inr [])))
      in (case body of
            Inr r \<Rightarrow> ([], Inr r)
          | Inl e \<Rightarrow>
              if e = JSONDecodeError \<or> e = IndexError \<or> e = KeyError
              then ([LogParse2DFail e], Inr [])
              else ([], Inl e)))"

text \<open>
  A decoder for the examples: it decodes the two documents \<open>[]\<close> and \<open>{}\<close> and rejects
  every other string.  Two texts for the examples follow.
\<close>

definition loads_empty_documents :: "pystr \<Rightarrow> py_error + json" where
  "loads_empty_documents s =
     (if s = py ''[]'' then Inr (JArray [])
      else if s = py ''{}'' then Inr (JObject [])
      else Inl JSONDecodeError)"

text \<open>
  A decoder for the example of deep nesting: like the decoder of CPython under its
  default recursion limit, it raises \<open>RecursionError\<close> on a document that opens 100000
  arrays or more before anything else.
\<close>

definition loads_nesting_limit :: "pystr \<Rightarrow> py_error + json" where
  "loads_nesting_limit s =
     (if 100000 \<le> length (takeWhile (\<lambda>c. c = 91) s) then Inl RecursionError
      else loads_empty_documents s)"

definition text_deep :: pystr where
  "text_deep = replicate 100000 91"

definition text_fenced :: pystr where
  "text_fenced = py ''Here: '' @ [10] @ py '' ```json'' @ [13, 10] @ py ''{}'' @ [10] @ py ''``` done ```x```''"

definition text_two_fences :: pystr where
  "text_two_fences =
     py ''```xjson'' @ [10] @ py ''A'' @ [10] @ py ''```'' @ [10] @ py ''```json'' @ [10]
       @ py ''B'' @ [10] @ py ''```''"

text \<open>The condition under which a line makes the loop of \<open>parse_json_response\<close> return.\<close>

definition opens_json_fence :: "pystr \<Rightarrow> bool" where
  "opens_json_fence line \<longleftrightarrow>
     strip line = fence @ json_word
     \<or> (startswith (strip line) fence \<and> contains json_word (strip line))"

definition no_json_fence :: "pystr \<Rightarrow> bool" where
  "no_json_fence text = list_all (\<lambda>line. \<not> opens_json_fence line) (splitlines text)"

text \<open>The text begins and ends with matching brackets.\<close>

definition bracketed :: "pystr \<Rightarrow> bool" where
  "bracketed t \<longleftrightarrow>
     (startswith t (py ''['') \<and> endswith t (py '']''))
     \<or> (startswith t (py ''{'') \<and> endswith t (py ''}''))"

text \<open>Some \<open>a\<close> occurs in the text before a later \<open>b\<close>.\<close>

definition has_pair :: "nat \<Rightarrow> nat \<Rightarrow> pystr \<Rightarrow> bool" where
  "has_pair a b t \<longleftrightarrow> b \<in> set (dropWhile (\<lambda>c. c \<noteq> a) t)"

text \<open>The text up to the first fence marker, or all of it when there is none.\<close>

definition until_fence :: "pystr \<Rightarrow> pystr" where
  "until_fence s = (case find_sub fence s of None \<Rightarrow> s | Some k \<Rightarrow> take k s)"

text \<open>The corners of the rectangles of a figure; two more boxes for the examples.\<close>

definition figure_rects :: "figure2d \<Rightarrow> ((int \<times> int) \<times> (int \<times> int)) list" where
  "figure_rects f = (case f of Figure rs ts \<Rightarrow> map rect_corners rs | ErrorFigure e \<Rightarrow> [])"

text \<open>An integer that is too large for a float.\<close>

definition huge_int :: int where
  "huge_int = 10 ^ 400"

definition box_far :: "json list" where
  "box_far = [JInt 0, JInt 0, JInt 10, JInt 2, JInt 2, JInt 2, JInt 0, JInt 0, JInt 0]"

definition box_short :: "json list" where
  "box_short = [JInt 0, JInt 0, JInt 10, JInt 2, JInt 2, JInt 2, JInt 0, JInt 0]"

section \<open>Properties of the projection\<close>


text \<open>
  C1.  For every box centre, every triple of angles (in radians) and every local corner,
  the coordinate that the loop of \<open>convert_3dbbox\<close> computes is the corner turned by the
  yaw rotation (about Y), then by the pitch rotation (about X), then by the roll
  rotation (about Z), each a plane rotation applied to the result of the previous one,
  and finally moved by the centre.
\<close>

theorem transform_corner_yaw_pitch_roll:
  "transform_corner centre pitch yaw roll corner =
     translate centre (rot_roll roll (rot_pitch pitch (rot_yaw yaw corner)))"
  by (cases centre; cases corner)
     (simp add: transform_corner_def translate_def rot_roll_def rot_pitch_def rot_yaw_def
        rot2d_def Let_def algebra_simps)

text \<open>The order of the rotations matters: yaw then pitch differs from pitch then yaw.\<close>

lemma rotation_order_matters:
  "rot_pitch (pi / 2) (rot_yaw (pi / 2) (1, 0, 0)) = (0, 1, 0)
   \<and> rot_yaw (pi / 2) (rot_pitch (pi / 2) (1, 0, 0)) = (0, 0, - 1)"
  by (simp add: rot_pitch_def rot_yaw_def rot2d_def)


lemma nums_of_list_all2:
  "nums_of vs = Inr rs \<Longrightarrow> list_all2 (\<lambda>v r. num_of v = Inr r) vs rs"
  by (induction vs arbitrary: rs) (auto split: sum.splits)

lemma nums_of_update:
  "nums_of vs = Inr rs \<Longrightarrow> nums_of (vs[i := JFloat a]) = Inr (rs[i := a])"
proof (induction vs arbitrary: rs i)
  case Nil
  then show ?case by simp
next
  case (Cons v vs)
  then show ?case
    by (cases i) (auto split: sum.splits)
qed




text \<open>
  C9 as stated fails: for the box \<open>(0,0,0, 2,2,2, 0,0,0)\<close> and the camera
  \<open>fx = fy = 1000, cx = cy = 0\<close> the result of \<open>convert_3dbbox\<close> is not empty.
\<close>

theorem convert_3dbbox_unit_box_not_empty:
  "convert_3dbbox box_unit cam_origin \<noteq> Inr []"
  by (simp add: box_unit_def cam_origin_def convert_3dbbox_def local_corners_def
      transform_corner_def py_div_def)

text \<open>
  C9, amended.  For the box \<open>(0,0,0, 2,2,2, 0,0,0)\<close> and the camera
  \<open>fx = fy = 1000, cx = cy = 0\<close> the corners have depths \<open>+1\<close> and \<open>-1\<close> alternately;
  the four at depth \<open>+1\<close> are projected to \<open>(\<plusminus>1000, \<plusminus>1000)\<close> and the four at depth
  \<open>-1\<close> are dropped, so \<open>convert_3dbbox\<close> yields four points.  A corner at depth exactly
  \<open>0\<close> is not projected: the flat box \<open>(0,0,0, 2,2,0, 0,0,0)\<close>, whose eight corners all
  have depth \<open>0\<close>, yields no point.
\<close>

theorem convert_3dbbox_depth_boundary:
  "map depth (map (transform_corner (0, 0, 0) 0 0 0) (local_corners (2 / 2) (2 / 2) (2 / 2)))
     = [1, - 1, 1, - 1, 1, - 1, 1, - 1]
   \<and> convert_3dbbox box_unit cam_origin =
       Inr [(1000, 1000), (1000, - 1000), (- 1000, 1000), (- 1000, - 1000)]
   \<and> map depth (map (transform_corner (0, 0, 0) 0 0 0) (local_corners (2 / 2) (2 / 2) (0 / 2)))
     = [0, 0, 0, 0, 0, 0, 0, 0]
   \<and> convert_3dbbox box_flat cam_origin = Inr []"
  by (simp add: box_unit_def box_flat_def cam_origin_def convert_3dbbox_def local_corners_def
      transform_corner_def py_div_def depth_def)

section \<open>Properties of the 3D renderer\<close>

lemma box_loop_append:
  "box_loop env rnd cam (xs @ ys) st =
     (case box_loop env rnd cam xs st of
        Inl e \<Rightarrow> Inl e
      | Inr st1 \<Rightarrow> box_loop env rnd cam ys st1)"
  by (induction xs arbitrary: st) (auto split: sum.splits)

text \<open>
  C6, amended.  For every 3D detection whose projection yields fewer than 8 surviving
  corners, the 3D renderer does not attempt the box: it draws none of its edges and
  places no label, leaves the figure as it was, and goes on with the next record
  rather than aborting the render: the batch is rendered as it is without that record.
\<close>

theorem draw_box_skips_partial_box:
  assumes "project_record env cam bbox_data = Inr (lbl, bbox_2d)"
    and "length bbox_2d < 8"
  shows "draw_box env rnd cam bbox_data st = Inr st
         \<and> box_loop env rnd cam (before @ bbox_data # rest) st
             = box_loop env rnd cam (before @ rest) st"
proof -
  have "draw_box env rnd cam bbox_data st' = Inr st'" for st'
    using assms by (simp add: draw_box_def)
  then show ?thesis
    by (simp add: box_loop_append split: sum.splits)
qed

theorem draw_box_skips_partial_box_witness:
  "project_record env_exact cam_origin (JArray box_unit)
     = Inr (JStr (py ''object''), [(1000, 1000), (1000, - 1000), (- 1000, 1000), (- 1000, - 1000)])
   \<and> draw_box env_exact rnd_zero cam_origin (JArray box_unit)
       (0, \<lparr>segments = [], label_positions = []\<rparr>)
     = Inr (0, \<lparr>segments = [], label_positions = []\<rparr>)
   \<and> box_loop env_exact rnd_zero cam_origin ([JArray box_flat] @ JArray box_unit # [JArray box_flat])
       (0, \<lparr>segments = [], label_positions = []\<rparr>)
     = box_loop env_exact rnd_zero cam_origin ([JArray box_flat] @ [JArray box_flat])
       (0, \<lparr>segments = [], label_positions = []\<rparr>)"
proof -
  have p: "project_record env_exact cam_origin (JArray box_unit)
     = Inr (JStr (py ''object''), [(1000, 1000), (1000, - 1000), (- 1000, 1000), (- 1000, - 1000)])"
    by (simp add: project_record_def record_3d_def deg2rad_at_def env_exact_def box_unit_def
        cam_origin_def convert_3dbbox_def local_corners_def transform_corner_def py_div_def)
  have l: "length [(1000 :: real, 1000 :: real), (1000, - 1000), (- 1000, 1000), (- 1000, - 1000)] < 8"
    by simp
  show ?thesis
    using draw_box_skips_partial_box [OF p l, of rnd_zero
        "(0, \<lparr>segments = [], label_positions = []\<rparr>)" "[JArray box_flat]" "[JArray box_flat]"] p
    by simp
qed

text \<open>
  C6 as stated fails: of the box \<open>(0,0,0, 2,2,2, 0,0,0)\<close> the corners 0 and 2 survive the
  projection and \<open>(0, 2)\<close> is one of the 12 edges, yet the renderer draws nothing.
\<close>

theorem draw_3dbboxes_partial_box_not_drawn:
  "depth (transform_corner (0, 0, 0) 0 0 0 (local_corners 1 1 1 ! 0)) > 0
   \<and> depth (transform_corner (0, 0, 0) 0 0 0 (local_corners 1 1 1 ! 2)) > 0
   \<and> (0, 2) \<in> set edges
   \<and> draw_3dbboxes env_exact rnd_zero (Some (500, 500)) cam_origin [JArray box_unit]
       = ([], Some \<lparr>segments = [], label_positions = []\<rparr>)"
  by (simp add: draw_3dbboxes_def draw_box_def project_record_def record_3d_def deg2rad_at_def
      env_exact_def convert_3dbbox_def box_unit_def cam_origin_def local_corners_def transform_corner_def
      py_div_def depth_def edges_def)

text \<open>
  When all eight corners are returned, an edge is drawn exactly when the four
  conversions to \<open>int\<close> succeed and \<open>cv2.line\<close> accepts the points; the other edges are
  passed over.
\<close>

lemma edge_loop_segments:
  "segment_ends (edge_loop env bbox_2d lbl col es fig) =
     segment_ends fig @
       concat (map (\<lambda>e. case draw_edge env bbox_2d (fst e) (snd e) of
                           None \<Rightarrow> [] | Some s \<Rightarrow> [s]) es)"
proof (induction es arbitrary: fig)
  case Nil
  show ?case by simp
next
  case (Cons e es)
  obtain start stop where e: "e = (start, stop)" by (cases e)
  show ?case
  proof (cases "draw_edge env bbox_2d start stop")
    case None
    then show ?thesis using Cons.IH e by simp
  next
    case (Some s)
    obtain pt1 pt2 where s: "s = (pt1, pt2)" by (cases s)
    show ?thesis
      using Some s e Cons.IH by (simp add: Let_def segment_ends_def)
  qed
qed

text \<open>
  The 3D renderer has no check of the number of entries: a record whose geometry list
  has fewer than nine entries raises in the loop, and the handler around the whole
  function returns no figure.
\<close>

lemma draw_box_short_record:
  assumes "record_3d bbox_data = (JArray xs, lbl)" and "length xs < 9"
  shows "\<exists>e. draw_box env rnd cam bbox_data st = Inl e"
  using assms
  by (auto simp: draw_box_def project_record_def deg2rad_at_def split: sum.splits if_splits)

lemma box_loop_short_record:
  assumes "bad \<in> set batch" and "record_3d bad = (JArray xs, lbl)" and "length xs < 9"
  shows "\<exists>e. box_loop env rnd cam batch st = Inl e"
  using assms(1)
proof (induction batch arbitrary: st)
  case Nil
  then show ?case by simp
next
  case (Cons b batch)
  show ?case
  proof (cases "draw_box env rnd cam b st")
    case (Inl e)
    then show ?thesis by simp
  next
    case (Inr st')
    have "b \<noteq> bad"
      using Inr draw_box_short_record [OF assms(2,3), of env rnd cam st] by auto
    with Cons.prems have "bad \<in> set batch" by simp
    from Cons.IH [OF this, of st'] Inr show ?thesis by simp
  qed
qed

lemma draw_3dbboxes_short_record:
  assumes "bad \<in> set batch" and "record_3d bad = (JArray xs, lbl)" and "length xs < 9"
  shows "snd (draw_3dbboxes env rnd img cam batch) = None"
proof (cases img)
  case None
  then show ?thesis by (simp add: draw_3dbboxes_def)
next
  case (Some dims)
  obtain e where "box_loop env rnd cam batch (0, \<lparr>segments = [], label_positions = []\<rparr>) = Inl e"
    using box_loop_short_record [OF assms] by blast
  with Some show ?thesis by (simp add: draw_3dbboxes_def)
qed

section \<open>Properties of the 2D renderer\<close>

lemma draw_loop_append:
  "draw_loop W H i (xs @ ys) st =
     (case draw_loop W H i xs st of
        Inl e \<Rightarrow> Inl e
      | Inr st1 \<Rightarrow> draw_loop W H (i + length xs) ys st1)"
  by (induction xs arbitrary: i st) (auto split: sum.splits)

lemma draw_item_wrong_arity:
  "bbox bad = JArray vs \<Longrightarrow> length vs \<noteq> 4 \<Longrightarrow>
   draw_item W H i bad st = Inr (st\<lparr>printed := printed st @ [LogInvalidBbox (bbox bad)]\<rparr>)"
  by (simp add: draw_item_def check_bbox_def)

text \<open>
  C7, amended.  In the 2D renderer a record that reaches the drawing loop with a geometry
  list of other than 4 entries is logged and skipped: it adds the message to what is
  printed and nothing to the figure, and the records before and after it are drawn as
  the loop draws them otherwise, the later ones under their own indices.  A bare list of
  fewer than 4 entries does not reach the loop (it is dropped without a message); a bare
  list of more than 4 entries does.
\<close>

theorem draw_loop_skips_wrong_arity:
  assumes "bbox bad = JArray vs" and "length vs \<noteq> 4"
  shows "draw_loop W H i (before @ bad # rest) st =
           (case draw_loop W H i before st of
              Inl e \<Rightarrow> Inl e
            | Inr st1 \<Rightarrow>
                draw_loop W H (i + length before + 1) rest
                  (st1\<lparr>printed := printed st1 @ [LogInvalidBbox (bbox bad)]\<rparr>))
         \<and> process_item (JArray vs) =
               (if length vs < 4 then []
                else [\<lparr>bbox = JArray vs, label = JStr (py ''object''), score = JFloat 1\<rparr>])"
  using assms
  by (simp add: draw_loop_append draw_item_wrong_arity process_item_def split: sum.splits)

text \<open>The examples of the specification, and one where rounding shows.\<close>

lemma scale_1000_examples:
  "scale_1000 (JInt 100) 500 = Inr 50" "scale_1000 (JInt 900) 500 = Inr 450"
  "scale_1000 (JInt 570) 100 = Inr 56" "scale_1000 (JInt 1000) 100 = Inr 100"
  by (simp_all add: scale_1000_def fl_def binade.simps round_half_even_def float_limit_def
      py_int_def Let_def)

theorem draw_loop_skips_wrong_arity_witness:
  "bbox \<lparr>bbox = JArray [JInt 1, JInt 2, JInt 3], label = JStr (py ''cat''), score = JFloat 1\<rparr>
     = JArray [JInt 1, JInt 2, JInt 3]
   \<and> length [JInt 1, JInt 2, JInt 3] \<noteq> 4
   \<and> draw_loop 500 500 0
        ([] @ \<lparr>bbox = JArray [JInt 1, JInt 2, JInt 3], label = JStr (py ''cat''), score = JFloat 1\<rparr>
           # [\<lparr>bbox = JArray [JInt 100, JInt 100, JInt 900, JInt 900], label = JStr (py ''dog''),
               score = JFloat 1\<rparr>])
        \<lparr>patches = [], texts = [], printed = []\<rparr>
      = Inr \<lparr>patches = [\<lparr>rect_x = 50, rect_y = 50, rect_width = 400, rect_height = 400,
                          edgecolor = 1\<rparr>],
             texts = [\<lparr>text_x = 58, text_y = 56, text_s = Label (JStr (py ''dog'')), facecolor = 1\<rparr>],
             printed = [LogInvalidBbox (JArray [JInt 1, JInt 2, JInt 3])]\<rparr>
   \<and> process_item (JArray [JInt 1, JInt 2, JInt 3]) = []"
  using draw_loop_skips_wrong_arity
    [of "\<lparr>bbox = JArray [JInt 1, JInt 2, JInt 3], label = JStr (py ''cat''), score = JFloat 1\<rparr>"
        "[JInt 1, JInt 2, JInt 3]" 500 500 0 "[]"
        "[\<lparr>bbox = JArray [JInt 100, JInt 100, JInt 900, JInt 900], label = JStr (py ''dog''),
               score = JFloat 1\<rparr>]" "\<lparr>patches = [], texts = [], printed = []\<rparr>"]
  by (simp add: draw_item_def check_bbox_def gt_one_def scaled_at_def scale_1000_examples)

text \<open>
  C7 as stated fails: the 3D renderer returns no figure for a batch whose first record has
  eight entries, although the second record is well formed; and the 2D renderer prints no
  message about a bare list of three numbers.
\<close>

theorem wrong_arity_aborts_3d_and_is_silent_2d:
  "snd (draw_3dbboxes env_exact rnd_zero (Some (500, 500)) cam_origin
          [JArray box_short, JArray box_far]) = None
   \<and> draw_bboxes_2d loads_empty_documents (Some (500, 500)) (JArray [JArray [JInt 1, JInt 2, JInt 3]])
       = ([LogProcessed []], Figure [] [])"
  by (simp add: draw_3dbboxes_def draw_box_def project_record_def record_3d_def deg2rad_at_def
      env_exact_def box_short_def box_far_def draw_bboxes_2d_def process_item_def)

lemma nums_of_four:
  assumes "nums_of vs = Inr [a, b, c, d]"
  shows "\<exists>v0 v1 v2 v3. vs = [v0, v1, v2, v3] \<and> num_of v0 = Inr a \<and> num_of v1 = Inr b
           \<and> num_of v2 = Inr c \<and> num_of v3 = Inr d"
  using nums_of_list_all2 [OF assms] by (auto simp: list_all2_Cons2)

lemma scale_1000_in_range:
  "num_of v = Inr r \<Longrightarrow> in_float_range r extent \<Longrightarrow> scale_1000 v extent = Inr (pixel_1000 r extent)"
  by (simp add: scale_1000_def in_float_range_def pixel_1000_def Let_def)

text \<open>
  C8 as stated fails: \<open>570 / 1000 * 100\<close> is \<open>57\<close>, but on an image 100 wide the renderer,
  which rounds the quotient and the product to floats and truncates, places the corner
  at \<open>56\<close>; and a geometry of four numbers of which one is too large for a float, or
  that comes with a score that is not a number, gets no rectangle at all.
\<close>

theorem draw_bboxes_2d_rounds_and_may_fail:
  "(570 :: real) / 1000 * 100 = 57
   \<and> figure_rects (snd (draw_bboxes_2d loads_empty_documents (Some (100, 100))
        (JArray [JArray [JInt 570, JInt 570, JInt 1000, JInt 1000]]))) = [((56, 56), (100, 100))]
   \<and> snd (draw_bboxes_2d loads_empty_documents (Some (100, 100))
        (JArray [JArray [JInt 0, JInt 0, JInt huge_int, JInt huge_int]]))
       = ErrorFigure OverflowError
   \<and> snd (draw_bboxes_2d loads_empty_documents (Some (500, 500))
        (JArray [JObject [(py ''bbox_2d'', JArray [JInt 100, JInt 100, JInt 900, JInt 900]),
                          (py ''score'', JNull)]]))
       = ErrorFigure TypeError"
proof -
  have z: "scale_1000 (JInt 0) 100 = Inr 0"
    by (simp add: scale_1000_def fl_def binade.simps round_half_even_def float_limit_def
        py_int_def Let_def)
  have big: "scale_1000 (JInt huge_int) 100 = Inl OverflowError"
    by (simp add: huge_int_def scale_1000_def fl_def binade.simps round_half_even_def
        float_limit_def Let_def)
  have gt: "gt_one (JInt huge_int) = Inr True"
    by (simp add: gt_one_def huge_int_def)
  have a: "figure_rects (snd (draw_bboxes_2d loads_empty_documents (Some (100, 100))
        (JArray [JArray [JInt 570, JInt 570, JInt 1000, JInt 1000]]))) = [((56, 56), (100, 100))]"
    by (simp add: draw_bboxes_2d_def process_item_def draw_item_def check_bbox_def gt_one_def
        scaled_at_def scale_1000_examples figure_rects_def rect_corners_def)
  have b: "snd (draw_bboxes_2d loads_empty_documents (Some (100, 100))
        (JArray [JArray [JInt 0, JInt 0, JInt huge_int, JInt huge_int]]))
       = ErrorFigure OverflowError"
    by (simp add: draw_bboxes_2d_def process_item_def draw_item_def check_bbox_def gt
        scaled_at_def z big)
  have c: "snd (draw_bboxes_2d loads_empty_documents (Some (500, 500))
        (JArray [JObject [(py ''bbox_2d'', JArray [JInt 100, JInt 100, JInt 900, JInt 900]),
                          (py ''score'', JNull)]]))
       = ErrorFigure TypeError"
    by (simp add: draw_bboxes_2d_def process_item_def dict_get_def py_def draw_item_def
        check_bbox_def gt_one_def scaled_at_def scale_1000_examples)
  from a b c show ?thesis by simp
qed

text \<open>
  C8, amended.  For every record whose geometry is four numbers \<open>[a, b, c, d]\<close> and whose
  score is a number, and every image of width \<open>W\<close> and height \<open>H\<close> on which the four
  scaled values stay within the range of a float, the 2D renderer adds one rectangle
  whose corners are the pixels \<open>int(raw / 1000 * W)\<close> for x and \<open>int(raw / 1000 * H)\<close> for
  y, the quotient and the product each rounded to the nearest float and the result
  truncated towards zero, independently for each axis, swapped where needed so that
  \<open>x1 \<le> x2\<close> and \<open>y1 \<le> y2\<close>.  On a 500 by 500 image \<open>[100,100,900,900]\<close> and the
  reversed \<open>[900,900,100,100]\<close> both give the rectangle \<open>(50,50)-(450,450)\<close>.
\<close>

theorem draw_item_rescales_in_floats:
  assumes "bbox item = JArray vs" and "nums_of vs = Inr [a, b, c, d]"
    and "num_of (score item) = Inr s"
    and "in_float_range a W" and "in_float_range b H"
    and "in_float_range c W" and "in_float_range d H"
  shows "(\<exists>st' r. draw_item W H i item st = Inr st' \<and> patches st' = patches st @ [r]
            \<and> rect_corners r =
                ((min (pixel_1000 a W) (pixel_1000 c W), min (pixel_1000 b H) (pixel_1000 d H)),
                 (max (pixel_1000 a W) (pixel_1000 c W), max (pixel_1000 b H) (pixel_1000 d H)))
            \<and> fst (fst (rect_corners r)) \<le> fst (snd (rect_corners r))
            \<and> snd (fst (rect_corners r)) \<le> snd (snd (rect_corners r)))
       \<and> figure_rects (snd (draw_bboxes_2d loads (Some (500, 500))
            (JArray [JArray [JInt 100, JInt 100, JInt 900, JInt 900]]))) = [((50, 50), (450, 450))]
       \<and> figure_rects (snd (draw_bboxes_2d loads (Some (500, 500))
            (JArray [JArray [JInt 900, JInt 900, JInt 100, JInt 100]]))) = [((50, 50), (450, 450))]"
proof -
  obtain v0 v1 v2 v3 where vs: "vs = [v0, v1, v2, v3]"
    and n: "num_of v0 = Inr a" "num_of v1 = Inr b" "num_of v2 = Inr c" "num_of v3 = Inr d"
    using nums_of_four [OF assms(2)] by blast
  have chk: "check_bbox (bbox item) = Inr True"
    using assms(1) vs n by (simp add: check_bbox_def gt_one_def)
  have sc: "scaled_at (bbox item) 0 W = Inr (pixel_1000 a W)"
    "scaled_at (bbox item) 1 H = Inr (pixel_1000 b H)"
    "scaled_at (bbox item) 2 W = Inr (pixel_1000 c W)"
    "scaled_at (bbox item) 3 H = Inr (pixel_1000 d H)"
    using assms(1) vs n assms(4-7) by (simp_all add: scaled_at_def scale_1000_in_range)
  have first: "\<exists>st' r. draw_item W H i item st = Inr st' \<and> patches st' = patches st @ [r]
            \<and> rect_corners r =
                ((min (pixel_1000 a W) (pixel_1000 c W), min (pixel_1000 b H) (pixel_1000 d H)),
                 (max (pixel_1000 a W) (pixel_1000 c W), max (pixel_1000 b H) (pixel_1000 d H)))
            \<and> fst (fst (rect_corners r)) \<le> fst (snd (rect_corners r))
            \<and> snd (fst (rect_corners r)) \<le> snd (snd (rect_corners r))"
    using chk sc assms(3)
    by (simp add: draw_item_def rect_corners_def Let_def min_def max_def)
  have ex1: "figure_rects (snd (draw_bboxes_2d loads (Some (500, 500))
            (JArray [JArray [JInt 100, JInt 100, JInt 900, JInt 900]]))) = [((50, 50), (450, 450))]"
    by (simp add: draw_bboxes_2d_def process_item_def draw_item_def check_bbox_def gt_one_def
        scaled_at_def scale_1000_examples figure_rects_def rect_corners_def)
  have ex2: "figure_rects (snd (draw_bboxes_2d loads (Some (500, 500))
            (JArray [JArray [JInt 900, JInt 900, JInt 100, JInt 100]]))) = [((50, 50), (450, 450))]"
    by (simp add: draw_bboxes_2d_def process_item_def draw_item_def check_bbox_def gt_one_def
        scaled_at_def scale_1000_examples figure_rects_def rect_corners_def)
  from first ex1 ex2 show ?thesis by blast
qed

theorem draw_item_rescales_in_floats_witness:
  "\<exists>st' r. draw_item 100 100 0
           \<lparr>bbox = JArray [JInt 1000, JInt 570, JInt 570, JInt 100], label = JStr (py ''object''),
             score = JFloat 1\<rparr> \<lparr>patches = [], texts = [], printed = []\<rparr> = Inr st'
         \<and> patches st' = [r] \<and> rect_corners r = ((56, 10), (100, 56))"
proof -
  have r: "in_float_range 1000 100" "in_float_range 570 100" "in_float_range 100 100"
    by (simp_all add: in_float_range_def fl_def binade.simps round_half_even_def float_limit_def)
  have p: "pixel_1000 1000 100 = 100" "pixel_1000 570 100 = 56" "pixel_1000 100 100 = 10"
    by (simp_all add: pixel_1000_def fl_def binade.simps round_half_even_def py_int_def)
  have b: "bbox \<lparr>bbox = JArray [JInt 1000, JInt 570, JInt 570, JInt 100],
             label = JStr (py ''object''), score = JFloat 1\<rparr>
           = JArray [JInt 1000, JInt 570, JInt 570, JInt 100]"
    by simp
  have n: "nums_of [JInt 1000, JInt 570, JInt 570, JInt 100] = Inr [1000, 570, 570, 100]"
    by simp
  have s: "num_of (score \<lparr>bbox = JArray [JInt 1000, JInt 570, JInt 570, JInt 100],
             label = JStr (py ''object''), score = JFloat 1\<rparr>) = Inr 1"
    by simp
  show ?thesis
    using draw_item_rescales_in_floats [OF b n s r(1) r(2) r(2) r(3), of 0
        "\<lparr>patches = [], texts = [], printed = []\<rparr>" loads_empty_documents]
    by (auto simp: p)
qed

section \<open>Properties of the parsers\<close>

text \<open>
  C10.  For every text (and whatever \<open>json.loads\<close> does) the 2D parser and the 3D
  parser return the same value; they differ only in the message they print.
\<close>

theorem parse_bbox_2d_3d_same_value:
  "snd (parse_bbox_2d_from_text loads text) = snd (parse_bbox_3d_from_text loads text)"
  by (simp add: parse_bbox_2d_from_text_def parse_bbox_3d_from_text_def Let_def split: sum.splits)

lemma scan_lines_error: "scan_lines ls = Some (Inl e) \<Longrightarrow> e = IndexError"
  by (induction ls) (auto simp: nth_err_def Let_def split: if_splits sum.splits)

lemma parse_json_response_error: "parse_json_response text = Inl e \<Longrightarrow> e = IndexError"
  by (auto simp: parse_json_response_def Let_def split: if_splits option.splits
      dest: scan_lines_error)

text \<open>
  What the parsers return as long as the decoder raises nothing but \<open>JSONDecodeError\<close>:
  the empty list when no string is extracted, when decoding fails or when the decoded
  value is neither a list nor a dict; the list itself for a decoded list; the
  one-element list of the dict for a decoded dict.
\<close>

lemma parse_bbox_value_if_only_decode_errors:
  assumes "\<forall>s e. loads s = Inl e \<longrightarrow> e = JSONDecodeError"
  shows "let detections =
               (case parse_json_response text of
                  Inl e \<Rightarrow> []
                | Inr json_str \<Rightarrow>
                    if json_str = [] then []
                    else (case loads json_str of
                            Inl e \<Rightarrow> []
                          | Inr (JArray xs) \<Rightarrow> xs
                          | Inr (JObject kv) \<Rightarrow> [JObject kv]
                          | Inr _ \<Rightarrow> []))
         in snd (parse_bbox_3d_from_text loads text) = Inr detections
          \<and> snd (parse_bbox_2d_from_text loads text) = Inr detections"
proof (cases "parse_json_response text")
  case (Inl e)
  then have "e = IndexError" by (rule parse_json_response_error)
  with Inl show ?thesis
    by (simp add: parse_bbox_3d_from_text_def parse_bbox_2d_from_text_def)
next
  case js: (Inr json_str)
  show ?thesis
  proof (cases "loads json_str")
    case (Inl e)
    then have "e = JSONDecodeError" using assms by blast
    with Inl js show ?thesis
      by (simp add: parse_bbox_3d_from_text_def parse_bbox_2d_from_text_def)
  next
    case (Inr bbox_data)
    with js show ?thesis
      by (cases bbox_data)
         (simp_all add: parse_bbox_3d_from_text_def parse_bbox_2d_from_text_def)
  qed
qed

lemma parse_json_response_text_fenced: "parse_json_response text_fenced = Inr (py ''{}'')"
  by (simp add: parse_json_response_def text_fenced_def splitlines_def py_def is_linebreak_def
     strip_def is_space_def fence_def json_word_def startswith_def contains_def nth_err_def)

lemma parse_bbox_text_fenced:
  "snd (parse_bbox_3d_from_text loads_empty_documents text_fenced) = Inr [JObject []]
   \<and> snd (parse_bbox_2d_from_text loads_empty_documents text_fenced) = Inr [JObject []]"
proof -
  have h: "\<forall>s e. loads_empty_documents s = Inl e \<longrightarrow> e = JSONDecodeError"
    by (simp add: loads_empty_documents_def)
  have ld: "loads_empty_documents (py ''{}'') = Inr (JObject [])"
    by (simp add: loads_empty_documents_def py_def)
  have ne: "py ''{}'' \<noteq> []"
    by (simp add: py_def)
  show ?thesis
    using parse_bbox_value_if_only_decode_errors [OF h, of text_fenced]
    by (simp add: parse_json_response_text_fenced ld ne Let_def)
qed

text \<open>A text of opening brackets only is handed to the decoder as it is.\<close>

lemma splitlines_from_brackets:
  "splitlines_from cur (replicate n 91) = (if cur = [] \<and> n = 0 then [] else [cur @ replicate n 91])"
proof (induction n arbitrary: cur)
  case 0
  show ?case by simp
next
  case (Suc n)
  show ?case
    by (simp add: Suc.IH is_linebreak_def replicate_app_Cons_same)
qed

lemma find_sub_absent: "c \<notin> set s \<Longrightarrow> find_sub [c] s = None"
  by (induction s) (auto simp: startswith_def)

lemma parse_json_response_brackets:
  assumes "0 < n"
  shows "parse_json_response (replicate n 91) = Inr (replicate n 91)"
proof -
  obtain m where n: "n = Suc m"
    using assms by (cases n) auto
  have st: "strip (replicate n 91) = replicate n 91"
    by (simp add: strip_def is_space_def dropWhile_replicate)
  have sl: "splitlines (replicate n 91) = [replicate n 91]"
    using assms by (simp add: splitlines_def splitlines_from_brackets)
  have st': "strip (91 # replicate m 91) = 91 # replicate m 91"
    using st n by simp
  have sc: "scan_lines [replicate n 91] = None"
    by (simp add: n st' fence_def startswith_def)
  have e: "\<not> endswith (replicate n 91) (py '']'')"
  proof
    assume "endswith (replicate n 91) (py '']'')"
    then have "\<exists>k. replicate k (91 :: nat) = [93]"
      by (auto simp: endswith_def py_def)
    then obtain k where k: "replicate k (91 :: nat) = [93]" ..
    have "(93 :: nat) \<in> set [93]" by simp
    then have "93 \<in> set (replicate k (91 :: nat))"
      unfolding k .
    then show False by simp
  qed
  have c: "\<not> startswith (replicate n 91) (py ''{'')"
    by (simp add: startswith_def py_def n)
  have r: "py_rfind (replicate n 91) (py '']'') = - 1"
    by (simp add: py_rfind_def py_def find_sub_absent)
  have f: "py_find (replicate n 91) (py ''{'') = - 1"
    by (simp add: py_find_def py_def find_sub_absent)
  have sn: "scan_lines (splitlines (replicate n 91)) = None"
    by (simp only: sl sc)
  show ?thesis
    using assms
    by (simp add: parse_json_response_def sn st e c r f Let_def del: scan_lines.simps)
qed

text \<open>
  C3 fails on the code: the decoder raises \<open>RecursionError\<close> on a text of 100000 opening
  brackets, the \<open>except\<close> clause names only \<open>JSONDecodeError\<close>, \<open>IndexError\<close> and
  \<open>KeyError\<close>, and the exception leaves both parsers.
\<close>

theorem parse_bbox_recursion_error_escapes:
  "snd (parse_bbox_3d_from_text loads_nesting_limit text_deep) = Inl RecursionError
   \<and> snd (parse_bbox_2d_from_text loads_nesting_limit text_deep) = Inl RecursionError"
proof -
  have p: "parse_json_response text_deep = Inr text_deep"
    unfolding text_deep_def by (rule parse_json_response_brackets) simp
  have ne: "text_deep \<noteq> []"
    by (simp add: text_deep_def)
  have l: "loads_nesting_limit text_deep = Inl RecursionError"
    by (simp add: loads_nesting_limit_def text_deep_def)
  show ?thesis
    by (simp add: parse_bbox_3d_from_text_def parse_bbox_2d_from_text_def p ne l)
qed

text \<open>In general, whatever the decoder raises beyond the three classes named leaves the parsers.\<close>

lemma parse_bbox_uncaught:
  assumes "parse_json_response text = Inr json_str" and "json_str \<noteq> []"
    and "loads json_str = Inl e"
    and "e \<noteq> JSONDecodeError" and "e \<noteq> IndexError" and "e \<noteq> KeyError"
  shows "snd (parse_bbox_3d_from_text loads text) = Inl e
         \<and> snd (parse_bbox_2d_from_text loads text) = Inl e"
  using assms by (simp add: parse_bbox_3d_from_text_def parse_bbox_2d_from_text_def)

section \<open>Properties of the extraction\<close>

lemma find_sub_first:
  "find_sub sub s = Some k \<Longrightarrow>
     startswith (drop k s) sub \<and> (\<forall>j<k. \<not> startswith (drop j s) sub)"
proof (induction s arbitrary: k)
  case Nil
  then show ?case by (simp add: startswith_def split: if_splits)
next
  case (Cons c cs)
  show ?case
  proof (cases "startswith (c # cs) sub")
    case True
    with Cons.prems show ?thesis by simp
  next
    case False
    with Cons.prems obtain k' where k': "find_sub sub cs = Some k'" "k = Suc k'"
      by auto
    have ih: "startswith (drop k' cs) sub \<and> (\<forall>j<k'. \<not> startswith (drop j cs) sub)"
      by (rule Cons.IH [OF k'(1)])
    have "\<not> startswith (drop j (c # cs)) sub" if "j < k" for j
      using that ih False k'(2) by (cases j) auto
    with ih k'(2) show ?thesis by simp
  qed
qed

lemma scan_lines_skip:
  "\<forall>l\<in>set before. \<not> opens_json_fence l \<Longrightarrow> scan_lines (before @ rest) = scan_lines rest"
  by (induction before) (auto simp: opens_json_fence_def)

lemma split_sep_fence_first: "nth_err (split_sep fence s) 0 = Inr (until_fence s)"
  by (subst split_sep.simps) (simp add: fence_def nth_err_def until_fence_def split: option.splits)

text \<open>
  C4, amended.  For every text in which the first line that opens a json fence (a line
  that, stripped, starts with the fence marker and contains \<open>json\<close>) is, stripped, exactly
  the fence marker followed by \<open>json\<close>, \<open>parse_json_response\<close> returns the lines after
  that line, joined by newlines, up to the first fence marker among them (or all of them
  when there is none), stripped; what follows that fence marker, further fence markers
  included, is left out.
\<close>

theorem parse_json_response_first_json_fence:
  assumes "splitlines text = before @ line # rest"
    and "\<forall>l\<in>set before. \<not> opens_json_fence l"
    and "strip line = fence @ json_word"
  shows "parse_json_response text = Inr (strip (until_fence (join_nl rest)))"
proof -
  have "text \<noteq> []"
    using assms(1) by (auto simp: splitlines_def)
  moreover have "scan_lines (splitlines text) = Some (Inr (strip (until_fence (join_nl rest))))"
    using assms(3)
    by (simp add: assms(1) scan_lines_skip [OF assms(2)] split_sep_fence_first
        del: split_sep.simps)
  ultimately show ?thesis
    by (simp add: parse_json_response_def)
qed

theorem parse_json_response_first_json_fence_witness:
  "splitlines text_fenced = [py ''Here: ''] @ py '' ```json'' # [py ''{}'', py ''``` done ```x```'']
   \<and> strip (py '' ```json'') = fence @ json_word
   \<and> parse_json_response text_fenced = Inr (py ''{}'')"
proof -
  have a: "splitlines text_fenced = [py ''Here: ''] @ py '' ```json'' # [py ''{}'', py ''``` done ```x```'']"
    by (simp add: text_fenced_def splitlines_def py_def is_linebreak_def)
  have b: "\<forall>l\<in>set [py ''Here: '']. \<not> opens_json_fence l"
    by (simp add: opens_json_fence_def py_def strip_def is_space_def fence_def json_word_def
        startswith_def)
  have c: "strip (py '' ```json'') = fence @ json_word"
    by (simp add: py_def strip_def is_space_def fence_def json_word_def)
  have d: "strip (until_fence (join_nl [py ''{}'', py ''``` done ```x```''])) = py ''{}''"
    by (simp add: until_fence_def py_def fence_def startswith_def strip_def is_space_def)
  show ?thesis
    using parse_json_response_first_json_fence [OF a b c] a c d by simp
qed

text \<open>
  C4 as stated fails: the fourth line of the text below is exactly the fence marker
  followed by \<open>json\<close> and the interior after it is \<open>B\<close>, but the first line already
  starts with the fence marker and contains \<open>json\<close>, and the result is taken from there.
\<close>

theorem parse_json_response_earlier_fence_wins:
  "splitlines text_two_fences ! 3 = fence @ json_word
   \<and> strip (until_fence (join_nl (drop 4 (splitlines text_two_fences)))) = py ''B''
   \<and> parse_json_response text_two_fences = Inr (py ''x'' @ [10] @ py ''A'')
   \<and> parse_json_response text_two_fences \<noteq> Inr (py ''B'')"
  by (simp add: parse_json_response_def text_two_fences_def splitlines_def py_def is_linebreak_def
     strip_def is_space_def fence_def json_word_def startswith_def contains_def nth_err_def
     until_fence_def)

lemma scan_lines_none:
  "list_all (\<lambda>line. \<not> opens_json_fence line) ls \<Longrightarrow> scan_lines ls = None"
  by (induction ls) (auto simp: opens_json_fence_def)

lemma find_sub_single:
  "find_sub [a] t = Some i \<Longrightarrow>
     i < length t \<and> t ! i = a \<and> dropWhile (\<lambda>c. c \<noteq> a) t = drop i t"
proof (induction t arbitrary: i)
  case Nil
  then show ?case by simp
next
  case (Cons c cs)
  show ?case
  proof (cases "c = a")
    case True
    with Cons.prems show ?thesis by (simp add: startswith_def)
  next
    case False
    with Cons.prems obtain i' where "find_sub [a] cs = Some i'" "i = Suc i'"
      by (auto simp: startswith_def)
    with Cons.IH False show ?thesis by simp
  qed
qed

lemma no_pair_no_slice:
  assumes "\<not> has_pair a b t"
  shows "\<not> (py_find t [a] \<noteq> - 1 \<and> py_rfind t [b] \<noteq> - 1 \<and> py_rfind t [b] > py_find t [a])"
proof
  assume h: "py_find t [a] \<noteq> - 1 \<and> py_rfind t [b] \<noteq> - 1 \<and> py_rfind t [b] > py_find t [a]"
  then obtain i where i: "find_sub [a] t = Some i"
    by (auto simp: py_find_def split: option.splits)
  from h obtain k where k: "find_sub [b] (rev t) = Some k"
    by (auto simp: py_rfind_def split: option.splits)
  have fi: "i < length t" "dropWhile (\<lambda>c. c \<noteq> a) t = drop i t"
    using find_sub_single [OF i] by simp_all
  have fk: "k < length t" "rev t ! k = b"
    using find_sub_single [OF k] by simp_all
  define j where "j = length t - k - 1"
  have j: "j < length t" "t ! j = b"
    using fk by (simp_all add: j_def rev_nth)
  have "int j > int i"
    using h i k by (simp add: py_find_def py_rfind_def j_def)
  then have "i \<le> j" by simp
  then have "b \<in> set (drop i t)"
    using j by (auto simp: in_set_conv_nth intro!: exI [of _ "j - i"])
  then have "has_pair a b t"
    by (simp add: has_pair_def fi(2))
  with assms show False by simp
qed

text \<open>\<open>has_pair\<close> in terms of positions.\<close>

lemma has_pair_iff:
  "has_pair a b t \<longleftrightarrow> (\<exists>i j. i \<le> j \<and> j < length t \<and> t ! i = a \<and> t ! j = b)"
proof
  assume "has_pair a b t"
  then have b: "b \<in> set (dropWhile (\<lambda>c. c \<noteq> a) t)"
    by (simp add: has_pair_def)
  define n where "n = length (takeWhile (\<lambda>c. c \<noteq> a) t)"
  have d: "dropWhile (\<lambda>c. c \<noteq> a) t = drop n t"
    by (simp add: n_def dropWhile_eq_drop)
  have ne: "dropWhile (\<lambda>c. c \<noteq> a) t \<noteq> []"
  proof
    assume "dropWhile (\<lambda>c. c \<noteq> a) t = []"
    with b have "b \<in> set []" by (simp only:)
    then show False by simp
  qed
  then have n: "n < length t"
    unfolding d by simp
  have ta: "t ! n = a"
    using ne hd_dropWhile [OF ne] unfolding d by (simp add: hd_drop_conv_nth n)
  from b obtain m where m: "m < length (drop n t)" "drop n t ! m = b"
    unfolding d by (auto simp: in_set_conv_nth)
  then have "n \<le> n + m \<and> n + m < length t \<and> t ! n = a \<and> t ! (n + m) = b"
    using ta by simp
  then show "\<exists>i j. i \<le> j \<and> j < length t \<and> t ! i = a \<and> t ! j = b" by blast
next
  assume "\<exists>i j. i \<le> j \<and> j < length t \<and> t ! i = a \<and> t ! j = b"
  then obtain i j where ij: "i \<le> j" "j < length t" "t ! i = a" "t ! j = b" by blast
  define n where "n = length (takeWhile (\<lambda>c. c \<noteq> a) t)"
  have d: "dropWhile (\<lambda>c. c \<noteq> a) t = drop n t"
    by (simp add: n_def dropWhile_eq_drop)
  have "n \<le> i"
  proof (rule ccontr)
    assume "\<not> n \<le> i"
    then have "i < n" by simp
    then have "t ! i \<noteq> a"
      unfolding n_def using nth_length_takeWhile takeWhile_nth
      by (metis (mono_tags, lifting) nth_mem set_takeWhileD)
    with ij(3) show False by simp
  qed
  then have "n \<le> j" using ij(1) by simp
  then have "b \<in> set (drop n t)"
    using ij(2,4) by (auto simp: in_set_conv_nth intro!: exI [of _ "j - n"])
  then show "has_pair a b t"
    by (simp add: has_pair_def d)
qed

text \<open>
  C5, amended.  For every non-empty text in which no line opens a json fence, whose
  stripped form does not begin and end with matching brackets and has neither a \<open>[\<close>
  (code point 91) before a later \<open>]\<close> (93) nor a \<open>{\<close> (123) before a later \<open>}\<close> (125),
  \<open>parse_json_response\<close> returns the stripped text itself.
\<close>

theorem parse_json_response_no_json:
  assumes "text \<noteq> []" and "no_json_fence text" and "\<not> bracketed (strip text)"
    and "\<not> has_pair 91 93 (strip text)" and "\<not> has_pair 123 125 (strip text)"
  shows "parse_json_response text = Inr (strip text)"
proof -
  have s: "scan_lines (splitlines text) = None"
    using assms(2) unfolding no_json_fence_def by (rule scan_lines_none)
  have sq: "\<not> (py_find (strip text) (py ''['') \<noteq> - 1 \<and> py_rfind (strip text) (py '']'') \<noteq> - 1
               \<and> py_rfind (strip text) (py '']'') > py_find (strip text) (py ''[''))"
    using no_pair_no_slice [OF assms(4)] by (simp add: py_def)
  have cu: "\<not> (py_find (strip text) (py ''{'') \<noteq> - 1 \<and> py_rfind (strip text) (py ''}'') \<noteq> - 1
               \<and> py_rfind (strip text) (py ''}'') > py_find (strip text) (py ''{''))"
    using no_pair_no_slice [OF assms(5)] by (simp add: py_def)
  show ?thesis
    using assms(1) s sq cu by (auto simp: parse_json_response_def Let_def)
qed

theorem parse_json_response_no_json_witness:
  "py ''  no boxes ]['' \<noteq> []
   \<and> no_json_fence (py ''  no boxes ]['')
   \<and> \<not> bracketed (strip (py ''  no boxes ][''))
   \<and> \<not> has_pair 91 93 (strip (py ''  no boxes ][''))
   \<and> \<not> has_pair 123 125 (strip (py ''  no boxes ][''))
   \<and> parse_json_response (py ''  no boxes ]['') = Inr (py ''no boxes ]['')"
proof -
  have a: "py ''  no boxes ]['' \<noteq> []"
    by (simp add: py_def)
  have st: "strip (py ''  no boxes ]['') = py ''no boxes ][''"
    by (simp add: py_def strip_def is_space_def)
  have b: "no_json_fence (py ''  no boxes ]['')"
    by (simp add: no_json_fence_def opens_json_fence_def splitlines_def py_def is_linebreak_def
        strip_def is_space_def fence_def json_word_def startswith_def)
  have c: "\<not> bracketed (strip (py ''  no boxes ][''))"
    unfolding st by (simp add: bracketed_def py_def startswith_def endswith_def)
  have d: "\<not> has_pair 91 93 (strip (py ''  no boxes ][''))"
    unfolding st by (simp add: has_pair_def py_def)
  have e: "\<not> has_pair 123 125 (strip (py ''  no boxes ][''))"
    unfolding st by (simp add: has_pair_def py_def)
  show ?thesis
    using parse_json_response_no_json [OF a b c d e] a b c d e st by simp
qed

text \<open>
  C5 as stated fails: the text \<open>hello\<close> meets every condition of the claim and the
  result is \<open>hello\<close>, not the empty string.
\<close>

theorem parse_json_response_returns_text_not_empty:
  "py ''hello'' \<noteq> []
   \<and> no_json_fence (py ''hello'')
   \<and> \<not> bracketed (strip (py ''hello''))
   \<and> \<not> has_pair 91 93 (strip (py ''hello''))
   \<and> \<not> has_pair 123 125 (strip (py ''hello''))
   \<and> parse_json_response (py ''hello'') = Inr (py ''hello'')
   \<and> parse_json_response (py ''hello'') \<noteq> Inr []"
  by (simp add: parse_json_response_def splitlines_def py_def is_linebreak_def
     strip_def is_space_def fence_def json_word_def startswith_def contains_def nth_err_def
     endswith_def py_find_def py_rfind_def no_json_fence_def opens_json_fence_def bracketed_def
     has_pair_def)

end
